theory Spec2Isabelle
  imports Complex_Main "HOL-Library.Sublist"
begin

section \<open>Data model of \<open>App.tsx\<close>\<close>

text \<open>
  A cell of a row is a JavaScript value. The parsers of the component produce numbers,
  strings, booleans, \<open>null\<close> and (PapaParse with \<open>dynamicTyping\<close>) \<open>Date\<close> objects. The
  payload of a number is never inspected by the code below, only its tag. A \<open>Date\<close>
  object is carried by the text its \<open>toString()\<close> gives.

  A row is a plain object, so a property read on it also finds the members of
  \<open>Object.prototype\<close>: \<open>Inherited n\<close> is the member named \<open>n\<close> (a builtin function, or for
  \<open>__proto__\<close> the prototype object itself). It is not \<open>null\<close> and not a number.
\<close>

datatype jsval =
    Undefined
  | Null
  | Bool bool
  | Num real
  | Str string
  | DateObj string
  | Inherited string

text \<open>The property names of \<open>Object.prototype\<close>.\<close>

definition object_prototype_names :: "string list" where
  "object_prototype_names =
     [''constructor'', ''__defineGetter__'', ''__defineSetter__'', ''hasOwnProperty'',
      ''__lookupGetter__'', ''__lookupSetter__'', ''isPrototypeOf'',
      ''propertyIsEnumerable'', ''toString'', ''valueOf'', ''__proto__'',
      ''toLocaleString'']"

text \<open>
  \<open>interface DataRow { [key: string]: any }\<close>: an object, as the list of its own
  properties in property order (what \<open>Object.keys\<close> enumerates).
\<close>

type_synonym DataRow = "(string \<times> jsval) list"

text \<open>
  \<open>row[header]\<close>: the value of the row's own property of that name; when the row has
  none, the member of \<open>Object.prototype\<close> of that name; when there is none either,
  \<open>undefined\<close>.
\<close>

definition row_get :: "DataRow \<Rightarrow> string \<Rightarrow> jsval" where
  "row_get row k =
     (case map_of row k of
        Some v \<Rightarrow> v
      | None \<Rightarrow> if k \<in> set object_prototype_names then Inherited k else Undefined)"

text \<open>\<open>v != null\<close>: the loose inequality, false on \<open>null\<close> and on \<open>undefined\<close> only.\<close>

definition non_null :: "jsval \<Rightarrow> bool" where
  "non_null v \<longleftrightarrow> v \<noteq> Null \<and> v \<noteq> Undefined"

text \<open>\<open>typeof v === "number"\<close>\<close>

definition is_number :: "jsval \<Rightarrow> bool" where
  "is_number v = (case v of Num _ \<Rightarrow> True | _ \<Rightarrow> False)"

section \<open>Type inference: \<open>analyzeDataTypes\<close>\<close>

text \<open>
  \<open>Date.parse\<close> is a builtin of the host engine: it converts its argument to a string
  and parses that; beyond the ISO date-time format the result is
  implementation-specific. The model takes the host's answer to
  \<open>!isNaN(Date.parse(v))\<close> as a parameter \<open>dp\<close> of the functions that use it, except on
  \<open>undefined\<close>: that converts to the text \<open>undefined\<close>, which is no date in any format,
  so the result is \<open>NaN\<close>. The conversion to a string throws on symbols and on objects
  whose own conversion throws only; no \<open>jsval\<close> is one, so the test has no exception
  branch.
\<close>

definition valid_date :: "(jsval \<Rightarrow> bool) \<Rightarrow> jsval \<Rightarrow> bool" where
  "valid_date dp sample = (case sample of Undefined \<Rightarrow> False | _ \<Rightarrow> dp sample)"

text \<open>
  The result object \<open>types\<close> starts as \<open>{}\<close> and is kept as the map of its own
  properties. \<open>types[header] = value\<close> with a string value creates or overwrites the
  own property, except for the name \<open>__proto__\<close>: that is the accessor of
  \<open>Object.prototype\<close>, whose setter ignores a value that is not an object, and the
  assignment leaves \<open>types\<close> as it was.
\<close>

definition assign :: "(string \<rightharpoonup> string) \<Rightarrow> string \<Rightarrow> string \<Rightarrow> (string \<rightharpoonup> string)" where
  "assign types key v = (if key = ''__proto__'' then types else types(key \<mapsto> v))"

definition column :: "DataRow list \<Rightarrow> string \<Rightarrow> jsval list" where
  "column rows header = map (\<lambda>row. row_get row header) rows"

text \<open>\<open>values[0]\<close>: reading index 0 of an empty array gives \<open>undefined\<close>.\<close>

definition first_value :: "jsval list \<Rightarrow> jsval" where
  "first_value values = (case values of [] \<Rightarrow> Undefined | v # _ \<Rightarrow> v)"

definition infer_type :: "(jsval \<Rightarrow> bool) \<Rightarrow> jsval \<Rightarrow> string" where
  "infer_type dp sample =
     (if is_number sample then ''numeric''
      else if valid_date dp sample then ''date''
      else ''text'')"

definition analyzeDataTypes ::
  "(jsval \<Rightarrow> bool) \<Rightarrow> DataRow list \<Rightarrow> string list \<Rightarrow> (string \<rightharpoonup> string)" where
  "analyzeDataTypes dp rows hs =
     fold (\<lambda>header types.
             let values = filter non_null (column rows header);
                 sample = first_value values
             in assign types header (infer_type dp sample))
          hs Map.empty"

text \<open>
  A host engine for concrete runs: it accepts exactly the date-only form \<open>YYYY-MM-DD\<close>
  of the ISO format (month 01 to 12, day 01 to 31), given as a string, and nothing
  else. Every engine accepts these strings and rejects the empty string and the text
  \<open>undefined\<close>.
\<close>

definition digit :: "char \<Rightarrow> bool" where
  "digit c \<longleftrightarrow> 48 \<le> (of_char c :: nat) \<and> (of_char c :: nat) \<le> 57"

definition two_digits :: "char \<Rightarrow> char \<Rightarrow> nat" where
  "two_digits a b = 10 * (of_char a - 48) + (of_char b - 48)"

definition iso_date :: "string \<Rightarrow> bool" where
  "iso_date s \<longleftrightarrow>
     length s = 10 \<and> list_all digit (take 4 s)
     \<and> s ! 4 = CHR ''-'' \<and> digit (s ! 5) \<and> digit (s ! 6)
     \<and> s ! 7 = CHR ''-'' \<and> digit (s ! 8) \<and> digit (s ! 9)
     \<and> 1 \<le> two_digits (s ! 5) (s ! 6) \<and> two_digits (s ! 5) (s ! 6) \<le> 12
     \<and> 1 \<le> two_digits (s ! 8) (s ! 9) \<and> two_digits (s ! 8) (s ! 9) \<le> 31"

definition strict_engine :: "jsval \<Rightarrow> bool" where
  "strict_engine v = (case v of Str s \<Rightarrow> iso_date s | _ \<Rightarrow> False)"

section \<open>Component state and external collaborators\<close>

text \<open>
  An awaited call of a library or of the platform either returns a value or throws.
  What is thrown is an \<open>Error\<close> with a message (\<open>Some msg\<close>) or some other value
  (\<open>None\<close>); the handlers turn it into text with
  \<open>err instanceof Error ? err.message : "Unknown error"\<close>.
\<close>

datatype 'a outcome = Returns 'a | Throws "string option"

definition errorMessage :: "string option \<Rightarrow> string" where
  "errorMessage err = (case err of Some msg \<Rightarrow> msg | None \<Rightarrow> ''Unknown error'')"

text \<open>
  \<open>Papa.parse(text, {header, dynamicTyping, skipEmptyLines, complete, error})\<close> calls
  back either \<open>complete\<close> with \<open>results.meta.fields\<close> (possibly undefined) and
  \<open>results.data\<close>, or \<open>error\<close> with a message.
\<close>

datatype papa_result =
    Complete "string list option" "DataRow list"
  | ParseFailed string

text \<open>
  The uploaded \<open>File\<close>: its name, and what the two parsing routes give on its content.
  \<open>csv_parse\<close> is \<open>await text()\<close> followed by \<open>Papa.parse\<close>; \<open>sheet_rows\<close> is
  \<open>await arrayBuffer()\<close>, \<open>XLSX.read\<close> and \<open>sheet_to_json\<close> of the first sheet with
  \<open>defval: null\<close>.
\<close>

record uploaded_file =
  name :: string
  csv_parse :: "papa_result outcome"
  sheet_rows :: "DataRow list outcome"

text \<open>The \<open>useState\<close> cells of the component (\<open>file_cell\<close> is the cell \<open>file\<close>).\<close>

record app_state =
  file_cell :: "uploaded_file option"
  fileName :: string
  data :: "DataRow list option"
  headers :: "string list"
  isAnalyzing :: bool
  report :: "string option"
  error :: "string option"
  regeneratePrompt :: string

text \<open>The messages of the component, under the names the specification gives the
  error kinds.\<close>

definition UnsupportedFormat :: string where
  "UnsupportedFormat = ''Please upload a CSV, XLS, or XLSX file''"

definition NoData :: string where
  "NoData = ''No data to analyze''"

definition GenerationEmpty :: string where
  "GenerationEmpty = ''Failed to generate report''"

section \<open>Tabular ingestion: \<open>handleFileUpload\<close>\<close>

text \<open>
  \<open>name.split(".").pop()\<close>: the text after the last dot, the whole name when it has
  no dot.
\<close>

definition lastSegment :: "string \<Rightarrow> string" where
  "lastSegment s = rev (takeWhile (\<lambda>c. c \<noteq> CHR ''.'') (rev s))"

text \<open>
  \<open>toLowerCase()\<close> on code units below 256: the letters A to Z, and the upper-case
  letters of Latin-1 (0xC0 to 0xDE without the multiplication sign 0xD7).
\<close>

definition lowerChar :: "char \<Rightarrow> char" where
  "lowerChar c =
     (let n = (of_char c :: nat)
      in if (65 \<le> n \<and> n \<le> 90) \<or> (192 \<le> n \<and> n \<le> 222 \<and> n \<noteq> 215)
         then char_of (n + 32) else c)"

definition toLowerCase :: "string \<Rightarrow> string" where
  "toLowerCase s = map lowerChar s"

definition fileExtension :: "string \<Rightarrow> string" where
  "fileExtension nm = toLowerCase (lastSegment nm)"

text \<open>
  The handler, on the file of the change event (\<open>None\<close>: no file was chosen). The
  \<open>try\<close> block is the case distinction on the extension, the \<open>catch\<close> the \<open>Throws\<close>
  branches. \<open>console.log(file)\<close> has no effect on the state.
\<close>

definition handleFileUpload :: "uploaded_file option \<Rightarrow> app_state \<Rightarrow> app_state" where
  "handleFileUpload e st =
     (case e of
        None \<Rightarrow> st
      | Some uploadedFile \<Rightarrow>
          let st1 = st\<lparr>fileName := name uploadedFile, file_cell := Some uploadedFile,
                       error := None, report := None\<rparr>;
              ext = fileExtension (name uploadedFile)
          in if ext = ''csv'' then
               (case csv_parse uploadedFile of
                  Returns (Complete meta_fields rows) \<Rightarrow>
                    st1\<lparr>headers := (case meta_fields of Some fs \<Rightarrow> fs | None \<Rightarrow> []),
                        data := Some rows\<rparr>
                | Returns (ParseFailed msg) \<Rightarrow>
                    st1\<lparr>error := Some (''Error parsing CSV: '' @ msg)\<rparr>
                | Throws err \<Rightarrow>
                    st1\<lparr>error := Some (''Error reading file: '' @ errorMessage err)\<rparr>)
             else if ext \<in> set [''xlsx'', ''xls''] then
               (case sheet_rows uploadedFile of
                  Returns jsonData \<Rightarrow>
                    (case jsonData of
                       [] \<Rightarrow> st1
                     | row0 # _ \<Rightarrow> st1\<lparr>headers := map fst row0, data := Some jsonData\<rparr>)
                | Throws err \<Rightarrow>
                    st1\<lparr>error := Some (''Error reading file: '' @ errorMessage err)\<rparr>)
             else st1\<lparr>error := Some UnsupportedFormat\<rparr>)"

section \<open>Dataset summary and report request: \<open>analyzeData\<close>\<close>

record DataSummary =
  summaryFileName :: string
  rowCount :: nat
  columns :: "string list"
  sampleData :: "DataRow list"
  dataTypes :: "string \<rightharpoonup> string"

text \<open>The object literal \<open>dataSummary\<close>; \<open>data.slice(0, 5)\<close> is a fresh array of the
  first five rows, or of all rows when there are fewer.\<close>

definition dataSummary ::
  "(jsval \<Rightarrow> bool) \<Rightarrow> string \<Rightarrow> DataRow list \<Rightarrow> string list \<Rightarrow> DataSummary" where
  "dataSummary dp fname rows hs =
     \<lparr>summaryFileName = fname,
      rowCount = length rows,
      columns = hs,
      sampleData = take 5 rows,
      dataTypes = analyzeDataTypes dp rows hs\<rparr>"

text \<open>
  The user prompt, by what it embeds: the summary and the full data, and in
  regeneration mode the directive in front of them. The rendering to text
  (\<open>JSON.stringify\<close> inside the template strings) is not modelled.
\<close>

datatype user_prompt =
    Analyze DataSummary "DataRow list"
  | ReAnalyze string DataSummary "DataRow list"

definition systemPrompt :: string where
  "systemPrompt =
     ''You are an expert data analyst. Analyze the provided dataset and generate a comprehensive report in markdown format.\<newline>\<newline>The report should include:\<newline>1. Executive Summary\<newline>2. Dataset Overview (rows, columns, data types)\<newline>3. Key Findings and Insights\<newline>4. Trend Analysis\<newline>5. Relationships and Correlations\<newline>6. Data Quality Assessment\<newline>7. Visualizations descriptions (describe what charts would be useful)\<newline>8. Conclusions and Recommendations\<newline>\<newline>Identify the report type needed (performance analysis, trend analysis, comparative analysis, etc.) based on the data structure.\<newline>\<newline>Format the response as clean markdown suitable for PDF conversion.''"

text \<open>The body of the POST to the generation service.\<close>

record request =
  model :: string
  max_tokens :: nat
  user_content :: user_prompt
  system_text :: string

text \<open>\<open>interface ClaudeResponse\<close>: an optional array of content blocks.\<close>

record content_block =
  block_type :: string
  block_text :: string

record ClaudeResponse =
  content :: "content_block list option"

text \<open>The request built between the guard and the \<open>fetch\<close>, for the rows held.\<close>

definition buildRequest :: "(jsval \<Rightarrow> bool) \<Rightarrow> bool \<Rightarrow> app_state \<Rightarrow> DataRow list \<Rightarrow> request" where
  "buildRequest dp isRegenerate st rows =
     (let summary = dataSummary dp (fileName st) rows (headers st);
          userPrompt = (if isRegenerate
                        then ReAnalyze (regeneratePrompt st) summary rows
                        else Analyze summary rows)
      in \<lparr>model = ''claude-sonnet-4-20250514'', max_tokens = 4000,
          user_content = userPrompt, system_text = systemPrompt\<rparr>)"

text \<open>
  \<open>analyzeData\<close>, with the network exchange (\<open>fetch\<close> and \<open>response.json()\<close>) as the
  parameter \<open>exchange\<close>. It returns the state after the call and the list of requests
  it sent to the service. \<open>result.content && result.content[0]\<close> holds when the array
  is there and has a first block. The \<open>finally\<close> clause resets \<open>isAnalyzing\<close> on each
  path through the \<open>try\<close>.
\<close>

definition analyzeData ::
  "(jsval \<Rightarrow> bool) \<Rightarrow> (request \<Rightarrow> ClaudeResponse outcome) \<Rightarrow> bool \<Rightarrow> app_state
     \<Rightarrow> app_state \<times> request list" where
  "analyzeData dp exchange isRegenerate st =
     (case data st of
        None \<Rightarrow> (st\<lparr>error := Some NoData\<rparr>, [])
      | Some rows \<Rightarrow>
          if length rows = 0 then (st\<lparr>error := Some NoData\<rparr>, [])
          else
            let st1 = st\<lparr>isAnalyzing := True, error := None\<rparr>;
                req = buildRequest dp isRegenerate st rows;
                st2 = (case exchange req of
                         Returns result \<Rightarrow>
                           (case content result of
                              Some (block # _) \<Rightarrow>
                                st1\<lparr>report := Some (block_text block),
                                    regeneratePrompt := []\<rparr>
                            | _ \<Rightarrow> st1\<lparr>error := Some GenerationEmpty\<rparr>)
                       | Throws err \<Rightarrow>
                           st1\<lparr>error := Some (''Analysis error: '' @ errorMessage err)\<rparr>)
            in (st2\<lparr>isAnalyzing := False\<rparr>, [req]))"

text \<open>The exchange produced a report: it returned, with a first content block.\<close>

definition produced_report :: "ClaudeResponse outcome \<Rightarrow> bool" where
  "produced_report out =
     (case out of
        Returns result \<Rightarrow> (case content result of Some (_ # _) \<Rightarrow> True | _ \<Rightarrow> False)
      | Throws _ \<Rightarrow> False)"

text \<open>The summary a prompt embeds.\<close>

definition summary_of :: "user_prompt \<Rightarrow> DataSummary" where
  "summary_of p = (case p of Analyze s _ \<Rightarrow> s | ReAnalyze _ s _ \<Rightarrow> s)"

section \<open>Markup renderer: \<open>marked\<close>\<close>

text \<open>
  The renderer is a chain of seven global regular-expression replacements. Strings
  are lists of code units below 256; among them the line terminators of the regular
  expressions (where \<open>^\<close> and \<open>$\<close> match under the \<open>m\<close> flag, and which \<open>.\<close> does not
  match) are line feed and carriage return.
\<close>

definition lineTerminator :: "char \<Rightarrow> bool" where
  "lineTerminator c \<longleftrightarrow> c = CHR 0x0A \<or> c = CHR 0x0D"

text \<open>
  \<open>/^### (.*$)/gim\<close> with replacement \<open><h3>$1</h3>\<close>, and likewise for the other two
  markers: a match starts at the start of a line with the marker and runs to the end
  of that line, so each line that begins with the marker is replaced by the rest of
  the line inside the tag. \<open>scanLines\<close> walks the text, collecting the current line
  (reversed) until a line terminator or the end of the text.
\<close>

definition headingLine :: "string \<Rightarrow> string \<Rightarrow> string \<Rightarrow> string" where
  "headingLine marker tag line =
     (if prefix marker line
      then ''<'' @ tag @ ''>'' @ drop (length marker) line @ ''</'' @ tag @ ''>''
      else line)"

fun scanLines :: "string \<Rightarrow> string \<Rightarrow> string \<Rightarrow> string \<Rightarrow> string" where
  "scanLines marker tag line [] = headingLine marker tag (rev line)"
| "scanLines marker tag line (c # cs) =
     (if lineTerminator c
      then headingLine marker tag (rev line) @ c # scanLines marker tag [] cs
      else scanLines marker tag (c # line) cs)"

definition replaceHeading :: "string \<Rightarrow> string \<Rightarrow> string \<Rightarrow> string" where
  "replaceHeading marker tag text = scanLines marker tag [] text"

text \<open>
  \<open>/\*\*(.*?)\*\*/g\<close> and \<open>/\*(.*?)\*/g\<close>: after an opening delimiter the lazy group
  takes the fewest characters, none of them a line terminator, up to the next
  occurrence of the delimiter. \<open>lazyUntil\<close> gives the captured text and the text after
  the closing delimiter, or \<open>None\<close> when the line or the text ends first. The search
  goes on after the closing delimiter of a match, and one character further when
  there is no match at a position. The delimiters used are not empty.
\<close>

fun lazyUntil :: "string \<Rightarrow> string \<Rightarrow> (string \<times> string) option" where
  "lazyUntil delim [] = None"
| "lazyUntil delim (c # cs) =
     (if prefix delim (c # cs) then Some ([], drop (length delim) (c # cs))
      else if lineTerminator c then None
      else (case lazyUntil delim cs of
              None \<Rightarrow> None
            | Some (captured, rest) \<Rightarrow> Some (c # captured, rest)))"

lemma lazyUntil_rest_length:
  "lazyUntil delim s = Some (captured, rest) \<Longrightarrow> length rest \<le> length s"
proof (induction s arbitrary: captured)
  case Nil
  then show ?case by simp
next
  case (Cons c cs)
  then show ?case
    by (fastforce split: if_splits option.splits)
qed

function replaceWrapped :: "string \<Rightarrow> string \<Rightarrow> string \<Rightarrow> string" where
  "replaceWrapped delim tag [] = []"
| "replaceWrapped delim tag (c # cs) =
     (if delim \<noteq> [] \<and> prefix delim (c # cs) then
        (case lazyUntil delim (drop (length delim) (c # cs)) of
           Some (captured, rest) \<Rightarrow>
             ''<'' @ tag @ ''>'' @ captured @ ''</'' @ tag @ ''>'' @ replaceWrapped delim tag rest
         | None \<Rightarrow> c # replaceWrapped delim tag cs)
      else c # replaceWrapped delim tag cs)"
  by pat_completeness auto
termination
proof (relation "measure (\<lambda>(delim, tag, s). length s)")
  show "wf (measure (\<lambda>(delim, tag, s). length s))" by simp
next
  fix delim tag :: string and c cs x2 x y
  assume "delim \<noteq> [] \<and> prefix delim (c # cs)"
    and "lazyUntil delim (drop (length delim) (c # cs)) = Some x2"
    and "(x, y) = x2"
  then have "length y \<le> length (drop (length delim) (c # cs))" and "delim \<noteq> []"
    using lazyUntil_rest_length [of delim "drop (length delim) (c # cs)" x y] by simp_all
  then have "length y < length (c # cs)" by (cases delim) simp_all
  then show "((delim, tag, y), delim, tag, c # cs) \<in> measure (\<lambda>(delim, tag, s). length s)"
    by simp
qed simp_all

text \<open>\<open>/\n\n/g\<close> and \<open>/\n/g\<close>: every occurrence of a fixed, non-empty text, from left to
  right, without overlap.\<close>

function replaceAll :: "string \<Rightarrow> string \<Rightarrow> string \<Rightarrow> string" where
  "replaceAll pat rep [] = []"
| "replaceAll pat rep (c # cs) =
     (if pat \<noteq> [] \<and> prefix pat (c # cs)
      then rep @ replaceAll pat rep (drop (length pat) (c # cs))
      else c # replaceAll pat rep cs)"
  by pat_completeness auto
termination
  by (relation "measure (\<lambda>(pat, rep, s). length s)") (auto simp: neq_Nil_conv)

definition marked :: "string \<Rightarrow> string" where
  "marked text =
     replaceAll ''\<newline>'' ''<br>''
       (replaceAll ''\<newline>\<newline>'' ''</p><p>''
         (replaceWrapped ''*'' ''em''
           (replaceWrapped ''**'' ''strong''
             (replaceHeading ''# '' ''h1''
               (replaceHeading ''## '' ''h2''
                 (replaceHeading ''### '' ''h3'' text))))))"

text \<open>The specification's "paragraph-wrapped copy" of a text, and its "plain text with
  no markup tokens": no heading marker, no emphasis delimiter, no line feed.\<close>

definition paragraph_wrapped :: "string \<Rightarrow> string" where
  "paragraph_wrapped t = ''<p>'' @ t @ ''</p>''"

definition plain_text :: "string \<Rightarrow> bool" where
  "plain_text t \<longleftrightarrow> CHR ''#'' \<notin> set t \<and> CHR ''*'' \<notin> set t \<and> CHR 0x0A \<notin> set t"

definition round_trip_input :: string where
  "round_trip_input = ''# Title\<newline>\<newline>Some **bold** and *italic* text.''"

text \<open>Example datasets: a four-column table, and the three one-column tables of the
  specification's type-inference scenario.\<close>

definition example_rows :: "DataRow list" where
  "example_rows =
     [[(''id'', Null), (''when'', Str ''2023-01-01''), (''note'', Str ''hello''), (''gap'', Null)],
      [(''id'', Num 7), (''when'', Str ''bad''), (''note'', Num 3)]]"

definition example_headers :: "string list" where
  "example_headers = [''id'', ''when'', ''note'', ''gap'']"





text \<open>A table whose column \<open>constructor\<close> has no cell in the first row and the number 5
  in the second.\<close>

definition short_row_table :: "DataRow list" where
  "short_row_table = [[(''a'', Num 1)], [(''a'', Num 2), (''constructor'', Num 5)]]"

text \<open>Example states and files: a session with a dataset and a report, one with
  nothing loaded, and uploads of three kinds.\<close>

definition loaded_state :: app_state where
  "loaded_state =
     \<lparr>file_cell = None, fileName = ''sales.csv'', data = Some example_rows,
      headers = example_headers, isAnalyzing = False, report = Some ''# Sales'',
      error = Some ''Analysis error: Failed to fetch'', regeneratePrompt = ''focus on trends''\<rparr>"

definition fresh_state :: app_state where
  "fresh_state =
     \<lparr>file_cell = None, fileName = [], data = None, headers = [], isAnalyzing = False,
      report = None, error = None, regeneratePrompt = []\<rparr>"

definition text_file :: uploaded_file where
  "text_file = \<lparr>name = ''notes.txt'', csv_parse = Throws None, sheet_rows = Throws None\<rparr>"

definition empty_workbook :: uploaded_file where
  "empty_workbook = \<lparr>name = ''Book1.XLSX'', csv_parse = Throws None, sheet_rows = Returns []\<rparr>"

definition rows_of :: "nat \<Rightarrow> DataRow list" where
  "rows_of n = replicate n [(''id'', Num 1)]"

definition service_replies :: "request \<Rightarrow> ClaudeResponse outcome" where
  "service_replies req =
     Returns \<lparr>content = Some [\<lparr>block_type = ''text'', block_text = ''# Report''\<rparr>]\<rparr>"

definition service_empty :: "request \<Rightarrow> ClaudeResponse outcome" where
  "service_empty req = Returns \<lparr>content = Some []\<rparr>"

definition service_down :: "request \<Rightarrow> ClaudeResponse outcome" where
  "service_down req = Throws (Some ''Failed to fetch'')"

section \<open>Facts about type inference\<close>


lemma assign_apply:
  "assign types key v x = (if key \<noteq> ''__proto__'' \<and> x = key then Some v else types x)"
  by (simp add: assign_def)

lemma fold_assign:
  "fold (\<lambda>h types. assign types h (f h)) hs m header =
     (if header \<in> set hs \<and> header \<noteq> ''__proto__'' then Some (f header) else m header)"
proof (induction hs arbitrary: m)
  case Nil
  then show ?case by simp
next
  case (Cons h hs)
  have "fold (\<lambda>h types. assign types h (f h)) (h # hs) m header =
        fold (\<lambda>h types. assign types h (f h)) hs (assign m h (f h)) header"
    by simp
  also have "\<dots> = (if header \<in> set hs \<and> header \<noteq> ''__proto__'' then Some (f header)
                   else assign m h (f h) header)"
    by (rule Cons.IH)
  also have "\<dots> = (if header \<in> set (h # hs) \<and> header \<noteq> ''__proto__'' then Some (f header)
                   else m header)"
    by (auto simp: assign_apply)
  finally show ?case .
qed

lemma analyzeDataTypes_apply:
  "analyzeDataTypes dp rows hs header =
     (if header \<in> set hs \<and> header \<noteq> ''__proto__''
      then Some (infer_type dp (first_value (filter non_null (column rows header))))
      else None)"
  unfolding analyzeDataTypes_def Let_def by (simp add: fold_assign)











lemma prototype_column_never_numeric:
  "analyzeDataTypes dp short_row_table [''a'', ''constructor''] ''constructor''
     \<noteq> Some ''numeric''"
  by (simp add: analyzeDataTypes_apply short_row_table_def column_def row_get_def
      object_prototype_names_def non_null_def first_value_def infer_type_def
      is_number_def)





lemma string_sample_never_numeric:
  "infer_type dp (Str s) \<noteq> ''numeric''"
  by (simp add: infer_type_def is_number_def)





section \<open>Facts about ingestion\<close>

lemma handleFileUpload_unsupported:
  assumes "fileExtension (name f) \<notin> {''csv'', ''xlsx'', ''xls''}"
  shows "handleFileUpload (Some f) st =
           st\<lparr>fileName := name f, file_cell := Some f, error := Some UnsupportedFormat,
              report := None\<rparr>"
  using assms by (simp add: handleFileUpload_def Let_def)

lemma fileExtension_text_file: "fileExtension (name text_file) = ''txt''"
  by (simp add: text_file_def fileExtension_def lastSegment_def toLowerCase_def lowerChar_def)

lemma fileExtension_empty_workbook: "fileExtension (name empty_workbook) = ''xlsx''"
  by code_simp

text \<open>
  Claim C6. An upload whose extension (the text after the last dot of the name, in
  lower case) is none of \<open>csv\<close>, \<open>xlsx\<close>, \<open>xls\<close> ends with the \<open>UnsupportedFormat\<close>
  message as the current error, and with the dataset rows and the column list it
  started with.
\<close>

theorem unsupported_extension_upload:
  assumes "fileExtension (name f) \<notin> {''csv'', ''xlsx'', ''xls''}"
  shows "error (handleFileUpload (Some f) st) = Some UnsupportedFormat
       \<and> data (handleFileUpload (Some f) st) = data st
       \<and> headers (handleFileUpload (Some f) st) = headers st"
  using assms by (simp add: handleFileUpload_unsupported)

theorem unsupported_extension_upload_witness:
  "fileExtension (name text_file) \<notin> {''csv'', ''xlsx'', ''xls''}
   \<and> error (handleFileUpload (Some text_file) loaded_state) = Some UnsupportedFormat
   \<and> data (handleFileUpload (Some text_file) loaded_state) = Some example_rows
   \<and> headers (handleFileUpload (Some text_file) loaded_state) = example_headers"
proof -
  have x: "fileExtension (name text_file) \<notin> {''csv'', ''xlsx'', ''xls''}"
    by (simp add: fileExtension_text_file)
  show ?thesis
    using unsupported_extension_upload [OF x, of loaded_state] x
    by (simp add: loaded_state_def)
qed

section \<open>Facts about analysis requests\<close>

lemma analyzeData_guard:
  assumes "data st = None \<or> data st = Some []"
  shows "analyzeData dp exchange isRegenerate st = (st\<lparr>error := Some NoData\<rparr>, [])"
  using assms by (auto simp: analyzeData_def)

text \<open>
  Claim C7. An analysis request made while the dataset is absent or empty ends with
  the \<open>NoData\<close> message as the current error, sends no request to the generation
  service and leaves the report as it was.
\<close>

theorem analyzeData_no_data:
  assumes "data st = None \<or> data st = Some []"
  shows "error (fst (analyzeData dp exchange isRegenerate st)) = Some NoData
       \<and> snd (analyzeData dp exchange isRegenerate st) = []
       \<and> report (fst (analyzeData dp exchange isRegenerate st)) = report st"
  using assms by (simp add: analyzeData_guard)

theorem analyzeData_no_data_witness:
  "(data fresh_state = None \<or> data fresh_state = Some [])
   \<and> (data (loaded_state\<lparr>data := Some []\<rparr>) = None \<or> data (loaded_state\<lparr>data := Some []\<rparr>) = Some [])
   \<and> error (fst (analyzeData strict_engine service_replies False fresh_state)) = Some NoData
   \<and> snd (analyzeData strict_engine service_replies False fresh_state) = []
   \<and> report (fst (analyzeData strict_engine service_replies False fresh_state)) = None
   \<and> error (fst (analyzeData strict_engine service_replies True (loaded_state\<lparr>data := Some []\<rparr>))) = Some NoData
   \<and> snd (analyzeData strict_engine service_replies True (loaded_state\<lparr>data := Some []\<rparr>)) = []
   \<and> report (fst (analyzeData strict_engine service_replies True (loaded_state\<lparr>data := Some []\<rparr>))) = Some ''# Sales''"
proof -
  have a: "data fresh_state = None \<or> data fresh_state = Some []"
    by (simp add: fresh_state_def)
  have b: "data (loaded_state\<lparr>data := Some []\<rparr>) = None \<or> data (loaded_state\<lparr>data := Some []\<rparr>) = Some []"
    by simp
  show ?thesis
    using analyzeData_no_data [OF a, of strict_engine service_replies False]
      analyzeData_no_data [OF b, of strict_engine service_replies True] a b
    by (simp add: fresh_state_def loaded_state_def)
qed

lemma analyzeData_regeneratePrompt:
  assumes "data st = Some rows" and "rows \<noteq> []"
  shows "regeneratePrompt (fst (analyzeData dp exchange isRegenerate st)) =
           (if produced_report (exchange (buildRequest dp isRegenerate st rows)) then []
            else regeneratePrompt st)"
  using assms
  by (simp add: analyzeData_def produced_report_def Let_def
      split: outcome.split option.split list.split)

text \<open>
  Claim C8. In a regeneration request on a loaded dataset, when the exchange produces
  a report the pending directive is reset to the empty string, and when the exchange
  fails (it throws, or its response has no first content block) the directive is the
  one the request started with.
\<close>

theorem regenerate_directive:
  assumes "data st = Some rows" and "rows \<noteq> []"
  shows "(produced_report (exchange (buildRequest dp True st rows))
            \<longrightarrow> regeneratePrompt (fst (analyzeData dp exchange True st)) = [])
       \<and> (\<not> produced_report (exchange (buildRequest dp True st rows))
            \<longrightarrow> regeneratePrompt (fst (analyzeData dp exchange True st)) = regeneratePrompt st)"
  using assms by (simp add: analyzeData_regeneratePrompt)

lemma example_rows_nonempty: "example_rows \<noteq> []"
  by (simp add: example_rows_def)

theorem regenerate_directive_witness:
  "data loaded_state = Some example_rows \<and> example_rows \<noteq> []
   \<and> produced_report (service_replies (buildRequest strict_engine True loaded_state example_rows))
   \<and> \<not> produced_report (service_empty (buildRequest strict_engine True loaded_state example_rows))
   \<and> \<not> produced_report (service_down (buildRequest strict_engine True loaded_state example_rows))
   \<and> regeneratePrompt (fst (analyzeData strict_engine service_replies True loaded_state)) = []
   \<and> regeneratePrompt (fst (analyzeData strict_engine service_empty True loaded_state)) = ''focus on trends''
   \<and> regeneratePrompt (fst (analyzeData strict_engine service_down True loaded_state)) = ''focus on trends''"
proof -
  have d: "data loaded_state = Some example_rows" by (simp add: loaded_state_def)
  have p: "regeneratePrompt loaded_state = ''focus on trends''" by (simp add: loaded_state_def)
  show ?thesis
    using regenerate_directive [OF d example_rows_nonempty, of service_replies strict_engine]
      regenerate_directive [OF d example_rows_nonempty, of service_empty strict_engine]
      regenerate_directive [OF d example_rows_nonempty, of service_down strict_engine]
      d p example_rows_nonempty
    by (simp add: produced_report_def service_replies_def service_empty_def service_down_def)
qed

section \<open>Facts about the frame of an upload\<close>

lemma handleFileUpload_resets:
  "fileName (handleFileUpload (Some f) st) = name f
   \<and> report (handleFileUpload (Some f) st) = None"
  by (simp add: handleFileUpload_def Let_def
      split: outcome.split papa_result.split list.split)

lemma handleFileUpload_forgets:
  "handleFileUpload (Some f) (st\<lparr>fileName := n, error := e, report := r\<rparr>) =
   handleFileUpload (Some f) st"
  by (simp add: handleFileUpload_def Let_def
      split: outcome.split papa_result.split list.split)

lemma handleFileUpload_failure_keeps_dataset:
  "error (handleFileUpload (Some f) st) \<noteq> None \<Longrightarrow>
   data (handleFileUpload (Some f) st) = data st
   \<and> headers (handleFileUpload (Some f) st) = headers st"
  by (simp add: handleFileUpload_def Let_def
      split: outcome.splits papa_result.splits list.splits if_splits)

text \<open>
  Claim C9. Every upload of a chosen file stores the file's name and leaves no report,
  and its result does not depend on the file name, error and report held before: they
  are overwritten first. In particular an upload that fails on its extension ends with
  no report although the dataset rows and the column list are the previous ones.
\<close>

theorem upload_discards_report:
  "fileName (handleFileUpload (Some f) st) = name f
   \<and> report (handleFileUpload (Some f) st) = None
   \<and> handleFileUpload (Some f) (st\<lparr>fileName := n, error := e, report := r\<rparr>) =
       handleFileUpload (Some f) st
   \<and> (fileExtension (name f) \<notin> {''csv'', ''xlsx'', ''xls''} \<longrightarrow>
         error (handleFileUpload (Some f) st) = Some UnsupportedFormat
       \<and> report (handleFileUpload (Some f) st) = None
       \<and> data (handleFileUpload (Some f) st) = data st
       \<and> headers (handleFileUpload (Some f) st) = headers st)"
  using handleFileUpload_resets [of f st] handleFileUpload_forgets
  by (simp add: handleFileUpload_def Let_def)

theorem upload_discards_report_witness:
  "fileExtension (name text_file) \<notin> {''csv'', ''xlsx'', ''xls''}
   \<and> report loaded_state = Some ''# Sales''
   \<and> fileName (handleFileUpload (Some text_file) loaded_state) = ''notes.txt''
   \<and> report (handleFileUpload (Some text_file) loaded_state) = None
   \<and> error (handleFileUpload (Some text_file) loaded_state) = Some UnsupportedFormat
   \<and> data (handleFileUpload (Some text_file) loaded_state) = Some example_rows"
proof -
  have x: "fileExtension (name text_file) \<notin> {''csv'', ''xlsx'', ''xls''}"
    by (simp add: fileExtension_text_file)
  show ?thesis
    using upload_discards_report [of text_file loaded_state] x
    by (simp add: loaded_state_def text_file_def)
qed

text \<open>
  Claim C10. An upload of a spreadsheet (\<open>xlsx\<close> or \<open>xls\<close>) whose first sheet gives no
  row record keeps the dataset rows and the column list and ends with no error.
\<close>

theorem empty_spreadsheet_ignored:
  assumes "fileExtension (name f) \<in> {''xlsx'', ''xls''}" and "sheet_rows f = Returns []"
  shows "data (handleFileUpload (Some f) st) = data st
       \<and> headers (handleFileUpload (Some f) st) = headers st
       \<and> error (handleFileUpload (Some f) st) = None"
  using assms by (auto simp: handleFileUpload_def Let_def)

theorem empty_spreadsheet_ignored_witness:
  "fileExtension (name empty_workbook) \<in> {''xlsx'', ''xls''}
   \<and> sheet_rows empty_workbook = Returns []
   \<and> data (handleFileUpload (Some empty_workbook) loaded_state) = Some example_rows
   \<and> headers (handleFileUpload (Some empty_workbook) loaded_state) = example_headers
   \<and> error (handleFileUpload (Some empty_workbook) loaded_state) = None"
proof -
  have x: "fileExtension (name empty_workbook) \<in> {''xlsx'', ''xls''}"
    by (simp add: fileExtension_empty_workbook)
  have r: "sheet_rows empty_workbook = Returns []" by (simp add: empty_workbook_def)
  show ?thesis
    using empty_spreadsheet_ignored [OF x r, of loaded_state] x r
    by (simp add: loaded_state_def)
qed

section \<open>Facts about the summary\<close>

lemma analyzeData_frame:
  "data (fst (analyzeData dp exchange isRegenerate st)) = data st
   \<and> headers (fst (analyzeData dp exchange isRegenerate st)) = headers st
   \<and> fileName (fst (analyzeData dp exchange isRegenerate st)) = fileName st"
  by (simp add: analyzeData_def Let_def split: outcome.split option.split list.split)

lemma analyzeData_sends:
  "data st = Some rows \<Longrightarrow> rows \<noteq> [] \<Longrightarrow>
   snd (analyzeData dp exchange isRegenerate st) = [buildRequest dp isRegenerate st rows]"
  by (simp add: analyzeData_def Let_def)

lemma summary_of_buildRequest:
  "summary_of (user_content (buildRequest dp isRegenerate st rows)) =
   dataSummary dp (fileName st) rows (headers st)"
  by (simp add: buildRequest_def summary_of_def Let_def)

text \<open>
  Claim C3. The sample of the summary is the first five rows of the dataset in order,
  or all of them when there are fewer: its length is the minimum of 5 and the number
  of rows (3 for three rows, 5 for a hundred). The row count is the number of rows of
  the whole dataset. An analysis request leaves the dataset rows, the column list and
  the file name of the state as they were, and the request it sends embeds this
  summary.
\<close>

theorem summary_sample_first_five:
  "sampleData (dataSummary dp fname rows hs) = take 5 rows
   \<and> length (sampleData (dataSummary dp fname rows hs)) = min 5 (length rows)
   \<and> rowCount (dataSummary dp fname rows hs) = length rows
   \<and> (length rows = 3 \<longrightarrow> length (sampleData (dataSummary dp fname rows hs)) = 3)
   \<and> (length rows = 100 \<longrightarrow> length (sampleData (dataSummary dp fname rows hs)) = 5)
   \<and> data (fst (analyzeData dp exchange isRegenerate st)) = data st
   \<and> headers (fst (analyzeData dp exchange isRegenerate st)) = headers st
   \<and> fileName (fst (analyzeData dp exchange isRegenerate st)) = fileName st
   \<and> (data st = Some rows \<and> rows \<noteq> [] \<longrightarrow>
        map (\<lambda>req. summary_of (user_content req))
          (snd (analyzeData dp exchange isRegenerate st)) =
        [dataSummary dp (fileName st) rows (headers st)])"
  using analyzeData_frame [of dp exchange isRegenerate st]
    analyzeData_sends [of st rows dp exchange isRegenerate]
  by (simp add: dataSummary_def summary_of_buildRequest min_def)

theorem summary_sample_first_five_witness:
  "length (rows_of 3) = 3 \<and> length (rows_of 100) = 100
   \<and> data (loaded_state\<lparr>data := Some (rows_of 100)\<rparr>) = Some (rows_of 100)
   \<and> rows_of 100 \<noteq> []
   \<and> length (sampleData (dataSummary strict_engine ''sales.csv'' (rows_of 3) example_headers)) = 3
   \<and> length (sampleData (dataSummary strict_engine ''sales.csv'' (rows_of 100) example_headers)) = 5
   \<and> rowCount (dataSummary strict_engine ''sales.csv'' (rows_of 100) example_headers) = 100
   \<and> map (\<lambda>req. summary_of (user_content req))
        (snd (analyzeData strict_engine service_replies False
               (loaded_state\<lparr>data := Some (rows_of 100)\<rparr>))) =
      [dataSummary strict_engine ''sales.csv'' (rows_of 100) example_headers]"
proof -
  have a: "length (rows_of 3) = 3" and b: "length (rows_of 100) = 100"
    by (simp_all add: rows_of_def)
  have c: "data (loaded_state\<lparr>data := Some (rows_of 100)\<rparr>) = Some (rows_of 100)" by simp
  have d: "rows_of 100 \<noteq> []" by (simp add: rows_of_def)
  have f: "fileName (loaded_state\<lparr>data := Some (rows_of 100)\<rparr>) = ''sales.csv''"
    and h: "headers (loaded_state\<lparr>data := Some (rows_of 100)\<rparr>) = example_headers"
    by (simp_all add: loaded_state_def)
  show ?thesis
    using summary_sample_first_five [of strict_engine "''sales.csv''" "rows_of 3"
        example_headers]
      summary_sample_first_five [of strict_engine "''sales.csv''" "rows_of 100"
        example_headers service_replies False "loaded_state\<lparr>data := Some (rows_of 100)\<rparr>"]
      a b c d f h
    by simp
qed

section \<open>Facts about the renderer\<close>

lemma headingLine_no_marker:
  "m \<notin> set line \<Longrightarrow> headingLine (m # marker) tag line = line"
  by (cases line) (auto simp: headingLine_def)

lemma scanLines_no_marker:
  "m \<notin> set line \<Longrightarrow> m \<notin> set s \<Longrightarrow>
   scanLines (m # marker) tag line s = rev line @ s"
  by (induction s arbitrary: line) (simp_all add: headingLine_no_marker)

lemma replaceHeading_no_marker:
  "m \<notin> set s \<Longrightarrow> replaceHeading (m # marker) tag s = s"
  by (simp add: replaceHeading_def scanLines_no_marker)

lemma replaceWrapped_no_delimiter:
  "d \<notin> set s \<Longrightarrow> replaceWrapped (d # delim) tag s = s"
  by (induction s) simp_all

lemma replaceAll_no_pattern:
  "p \<notin> set s \<Longrightarrow> replaceAll (p # pat) rep s = s"
  by (induction s) simp_all

lemma marked_plain: "plain_text t \<Longrightarrow> marked t = t"
  by (simp add: plain_text_def marked_def replaceHeading_no_marker
      replaceWrapped_no_delimiter replaceAll_no_pattern)

text \<open>
  Claim C4. On the input \<open># Title\<close>, blank line, \<open>Some **bold** and *italic* text.\<close>
  the passes, in the order \<open>###\<close>, \<open>##\<close>, \<open>#\<close>, double emphasis, single emphasis, give: no
  change for the first two, a level-1 heading around exactly \<open>Title\<close> (marker and its
  space removed), a strong span around exactly \<open>bold\<close>, an italic span around exactly
  \<open>italic\<close>; the rendered text has the paragraph break \<open></p><p>\<close> between the heading
  and the sentence.
\<close>

theorem marked_round_trip:
  "replaceHeading ''### '' ''h3'' round_trip_input = round_trip_input
   \<and> replaceHeading ''## '' ''h2'' round_trip_input = round_trip_input
   \<and> replaceHeading ''# '' ''h1'' round_trip_input =
       ''<h1>Title</h1>\<newline>\<newline>Some **bold** and *italic* text.''
   \<and> replaceWrapped ''**'' ''strong''
         ''<h1>Title</h1>\<newline>\<newline>Some **bold** and *italic* text.'' =
       ''<h1>Title</h1>\<newline>\<newline>Some <strong>bold</strong> and *italic* text.''
   \<and> replaceWrapped ''*'' ''em''
         ''<h1>Title</h1>\<newline>\<newline>Some <strong>bold</strong> and *italic* text.'' =
       ''<h1>Title</h1>\<newline>\<newline>Some <strong>bold</strong> and <em>italic</em> text.''
   \<and> marked round_trip_input =
       ''<h1>Title</h1></p><p>Some <strong>bold</strong> and <em>italic</em> text.''"
  by (simp add: round_trip_input_def marked_def replaceHeading_def headingLine_def
      lineTerminator_def)

lemma emphasis_order_matters:
  "replaceWrapped ''*'' ''em'' (replaceWrapped ''**'' ''strong'' ''**bold**'') =
     ''<strong>bold</strong>''
   \<and> replaceWrapped ''**'' ''strong'' (replaceWrapped ''*'' ''em'' ''**bold**'') =
     ''<em></em>bold<em></em>''"
  by (simp add: lineTerminator_def)

text \<open>
  Claim C5, as stated, fails: the rendering of the plain text \<open>hello\<close> is not its
  paragraph-wrapped copy. No pass of the renderer adds a paragraph element around the
  text.
\<close>

theorem plain_text_not_wrapped:
  "plain_text ''hello'' \<and> marked ''hello'' \<noteq> paragraph_wrapped ''hello''"
  by (simp add: plain_text_def marked_plain paragraph_wrapped_def)

text \<open>
  Claim C5, amended. For every plain text with no markup tokens the rendering is the
  input itself, unchanged (so without heading or emphasis artifacts, and without a
  paragraph wrapper), and rendering the output again gives the same string.
\<close>

theorem marked_plain_text:
  assumes "plain_text t"
  shows "marked t = t \<and> marked (marked t) = marked t"
  using assms by (simp add: marked_plain)

theorem marked_plain_text_witness:
  "plain_text ''Revenue grew 4% in Q3.''
   \<and> marked ''Revenue grew 4% in Q3.'' = ''Revenue grew 4% in Q3.''
   \<and> marked (marked ''Revenue grew 4% in Q3.'') = marked ''Revenue grew 4% in Q3.''"
proof -
  have p: "plain_text ''Revenue grew 4% in Q3.''" by (simp add: plain_text_def)
  show ?thesis using marked_plain_text [OF p] p by simp
qed

end
